theory Spec2Isabelle
  imports Main "HOL-Library.Sublist" "HOL-Library.AList"
begin

section \<open>Python strings\<close>

text \<open>
  A Python \<open>str\<close> is modelled as a \<open>string\<close> whose characters are the code points
  U+0000 .. U+00FF. The character classes below are Python's own on that range:
  \<open>str.isspace\<close> (also the class \<open>\s\<close> of \<open>re\<close> on \<open>str\<close> patterns, and what
  \<open>str.split()\<close> and \<open>str.strip()\<close> cut at), the decimal digits \<open>\d\<close>, and
  \<open>str.isdigit\<close>, which besides the decimal digits accepts the superscripts
  U+00B2, U+00B3 and U+00B9.
\<close>

definition py_isspace :: "char \<Rightarrow> bool" where
  "py_isspace c = (of_char c \<in> {9, 10, 11, 12, 13, 28, 29, 30, 31, 32, 133, 160 :: nat})"

definition re_digit :: "char \<Rightarrow> bool" where
  "re_digit c = (48 \<le> (of_char c :: nat) \<and> (of_char c :: nat) \<le> 57)"

definition isdigit_char :: "char \<Rightarrow> bool" where
  "isdigit_char c = (re_digit c \<or> of_char c \<in> {178, 179, 185 :: nat})"

text \<open>\<open>s.isdigit()\<close>: every character is a digit and there is at least one.\<close>

definition py_isdigit :: "string \<Rightarrow> bool" where
  "py_isdigit s = (s \<noteq> [] \<and> list_all isdigit_char s)"

text \<open>\<open>s.startswith(p)\<close>.\<close>

definition startswith :: "string \<Rightarrow> string \<Rightarrow> bool" where
  "startswith s p = (take (length p) s = p)"

text \<open>\<open>s.strip()\<close>.\<close>

definition py_strip :: "string \<Rightarrow> string" where
  "py_strip s = rev (dropWhile py_isspace (rev (dropWhile py_isspace s)))"

text \<open>
  \<open>s.split()\<close>: the maximal runs of non-whitespace characters, in order. \<open>cur\<close> is
  the token being read.
\<close>

fun split_aux :: "string \<Rightarrow> string \<Rightarrow> string list" where
  "split_aux cur [] = (if cur = [] then [] else [cur])"
| "split_aux cur (c # cs) =
     (if py_isspace c then (if cur = [] then split_aux [] cs else cur # split_aux [] cs)
      else split_aux (cur @ [c]) cs)"

definition py_split :: "string \<Rightarrow> string list" where
  "py_split s = split_aux [] s"

text \<open>\<open>" ".join(parts)\<close>.\<close>

fun py_join :: "string list \<Rightarrow> string" where
  "py_join [] = []"
| "py_join [p] = p"
| "py_join (p # q # ps) = p @ CHR '' '' # py_join (q # ps)"

text \<open>\<open>str(i)\<close> of an integer: decimal digits, with a leading \<open>-\<close> when negative.\<close>

definition digit_char :: "nat \<Rightarrow> char" where
  "digit_char d = char_of (48 + d)"

fun nat_digits :: "nat \<Rightarrow> string" where
  "nat_digits n = (if n < 10 then [digit_char n] else nat_digits (n div 10) @ [digit_char (n mod 10)])"

declare nat_digits.simps [simp del]

definition py_str :: "int \<Rightarrow> string" where
  "py_str i = (if i < 0 then CHR ''-'' # nat_digits (nat (- i)) else nat_digits (nat i))"

text \<open>
  \<open>int(s)\<close>: surrounding whitespace is stripped, then an optional sign and decimal
  digits, where single underscores may stand between digits. \<open>None\<close> is the
  \<open>ValueError\<close>. (The interpreter's limit on the number of digits of a conversion is
  not modelled.)
\<close>

fun int_digits :: "bool \<Rightarrow> int \<Rightarrow> string \<Rightarrow> int option" where
  "int_digits prev acc [] = (if prev then Some acc else None)"
| "int_digits prev acc (c # cs) =
     (if re_digit c then int_digits True (10 * acc + (int (of_char c) - 48)) cs
      else if c = CHR ''_'' \<and> prev then int_digits False acc cs
      else None)"

definition py_int :: "string \<Rightarrow> int option" where
  "py_int s =
     (case py_strip s of
        [] \<Rightarrow> None
      | c # r \<Rightarrow>
          if c = CHR ''-'' then map_option uminus (int_digits False 0 r)
          else if c = CHR ''+'' then int_digits False 0 r
          else int_digits False 0 (c # r))"

section \<open>The regular expressions of the sanitizer\<close>

text \<open>
  The patterns that \<open>_clean_block_states\<close> hands to \<open>re.sub\<close> are sequences of
  literals, \<open>+\<close> and \<open>*\<close> over a character class, and \<open>$\<close>. \<open>rmatch\<close> is the
  backtracking matcher on that fragment: it returns the input left after the first
  match in priority order (greedy: the longest repetition is tried first), \<open>None\<close>
  when the pattern does not match at the head of the input. Without the MULTILINE
  flag \<open>$\<close> matches at the end of the string and before a newline that ends it.
\<close>

datatype cls = Space | Digit | NotRBracket

fun in_cls :: "cls \<Rightarrow> char \<Rightarrow> bool" where
  "in_cls Space c = py_isspace c"
| "in_cls Digit c = re_digit c"
| "in_cls NotRBracket c = (c \<noteq> CHR '']'')"

datatype atom = Lit string | Plus cls | Star cls | Dollar

fun first_some :: "'a option list \<Rightarrow> 'a option" where
  "first_some [] = None"
| "first_some (None # xs) = first_some xs"
| "first_some (Some x # xs) = Some x"

fun rmatch :: "atom list \<Rightarrow> string \<Rightarrow> string option" where
  "rmatch [] s = Some s"
| "rmatch (Lit l # as) s =
     (if take (length l) s = l then rmatch as (drop (length l) s) else None)"
| "rmatch (Plus c # as) s =
     first_some (map (\<lambda>k. rmatch as (drop k s)) (rev [1 ..< Suc (length (takeWhile (in_cls c) s))]))"
| "rmatch (Star c # as) s =
     first_some (map (\<lambda>k. rmatch as (drop k s)) (rev [0 ..< Suc (length (takeWhile (in_cls c) s))]))"
| "rmatch (Dollar # as) s =
     (if s = [] \<or> s = [CHR 0x0A] then rmatch as s else None)"

text \<open>
  \<open>re.sub(pat, repl, s)\<close>: the leftmost non-overlapping matches are replaced, the
  search resuming where a match ended. Every pattern of the sanitizer consumes at
  least one character, so a match is never empty.
\<close>

function re_sub :: "atom list \<Rightarrow> string \<Rightarrow> string \<Rightarrow> string" where
  "re_sub pat repl [] = []"
| "re_sub pat repl (c # cs) =
     (case rmatch pat (c # cs) of
        None \<Rightarrow> c # re_sub pat repl cs
      | Some r \<Rightarrow>
          if length r < length (c # cs) then repl @ re_sub pat repl r
          else c # re_sub pat repl cs)"
  by pat_completeness auto
termination
  by (relation "measure (\<lambda>(pat, repl, s). length s)") auto

section \<open>Coordinate/Command Transformer\<close>

text \<open>
  \<open>CommandExecutor._clean_block_states\<close>. \<open>re.sub\<close> does not raise on a \<open>str\<close>, so the
  \<open>except\<close> branch (which returns the command) is never taken.
\<close>

definition clean_block_states :: "string \<Rightarrow> string" where
  "clean_block_states command0 =
     (let command1 = re_sub [Lit ''[facing='', Plus NotRBracket, Lit '']''] [] command0;
          command2 = re_sub [Lit ''[type='', Plus NotRBracket, Lit '']''] [] command1;
          command3 = re_sub [Lit ''[waterlogged='', Plus NotRBracket, Lit '']''] [] command2;
          command4 = re_sub [Lit ''['', Star NotRBracket, Lit '']''] [] command3;
          command5 = re_sub [Plus Space, Plus Digit, Dollar] [] command4;
          command6 = re_sub [Plus Space, Plus Digit, Plus Space] '' '' command5;
          command7 = py_strip (re_sub [Plus Space] '' '' command6)
      in command7)"

text \<open>
  \<open>CommandExecutor._convert_relative_coords\<close>. \<open>convert_parts\<close> is the loop
  \<open>for i, part in enumerate(parts)\<close>, which overwrites \<open>parts[i]\<close> only at the index
  it is visiting; \<open>None\<close> is the \<open>ValueError\<close> of a malformed offset, on which the
  function returns the command it was given.
\<close>

type_synonym point3 = "int \<times> int \<times> int"

fun convert_parts :: "point3 \<Rightarrow> nat \<Rightarrow> string list \<Rightarrow> string list option" where
  "convert_parts (x, y, z) coord_count [] = Some []"
| "convert_parts (x, y, z) coord_count (part # parts) =
     (if startswith part ''~'' then
        (if part = ''~'' then
           map_option
             ((#) (if coord_count mod 3 = 0 then py_str x
                   else if coord_count mod 3 = 1 then py_str y
                   else if coord_count mod 3 = 2 then py_str z
                   else part))
             (convert_parts (x, y, z) (coord_count + 1) parts)
         else
           (let offset_str = drop 1 part in
            case (if offset_str = [] then Some 0
                  else if startswith offset_str ''+'' then py_int (drop 1 offset_str)
                  else py_int offset_str) of
              None \<Rightarrow> None
            | Some offset \<Rightarrow>
                map_option
                  ((#) (if coord_count mod 3 = 0 then py_str (x + offset)
                        else if coord_count mod 3 = 1 then py_str (y + offset)
                        else if coord_count mod 3 = 2 then py_str (z + offset)
                        else part))
                  (convert_parts (x, y, z) (coord_count + 1) parts)))
      else if py_isdigit part \<or> (startswith part ''-'' \<and> py_isdigit (drop 1 part)) then
        map_option ((#) part) (convert_parts (x, y, z) (coord_count + 1) parts)
      else
        map_option ((#) part) (convert_parts (x, y, z) coord_count parts))"

definition convert_relative_coords :: "string \<Rightarrow> point3 \<Rightarrow> string" where
  "convert_relative_coords command center_pos =
     (case convert_parts center_pos 0 (py_split command) of
        None \<Rightarrow> command
      | Some parts \<Rightarrow> py_join parts)"

section \<open>Auxiliary notions for the proofs\<close>

text \<open>
  A token is what \<open>str.split()\<close> returns: non-empty and free of whitespace. A
  resolved token is one that the coordinate scan leaves alone whatever the counter is.
  \<open>axis\<close>, \<open>offset_of\<close> and \<open>counted\<close> name the three decisions the loop body of
  \<open>_convert_relative_coords\<close> takes; \<open>convert_parts_step\<close> below shows that they
  are the ones of the source.
\<close>

definition plain_char :: "char \<Rightarrow> bool" where
  "plain_char c = (re_digit c \<or> c = CHR ''-'')"

definition token :: "string \<Rightarrow> bool" where
  "token t = (t \<noteq> [] \<and> list_all (\<lambda>c. \<not> py_isspace c) t)"

definition resolved :: "string \<Rightarrow> bool" where
  "resolved t = (token t \<and> \<not> startswith t ''~'')"

definition axis :: "point3 \<Rightarrow> nat \<Rightarrow> int" where
  "axis p c = (case p of (x, y, z) \<Rightarrow> if c mod 3 = 0 then x else if c mod 3 = 1 then y else z)"

definition offset_of :: "string \<Rightarrow> int option" where
  "offset_of part =
     (if part = ''~'' then Some 0
      else if drop 1 part = [] then Some 0
      else if startswith (drop 1 part) ''+'' then py_int (drop 1 (drop 1 part))
      else py_int (drop 1 part))"

definition counted :: "string \<Rightarrow> bool" where
  "counted part = (py_isdigit part \<or> (startswith part ''-'' \<and> py_isdigit (drop 1 part)))"

section \<open>Coordinate resolution in the words of the specification\<close>

text \<open>
  The resolution rule as the specification words it, for comparison with the source:
  tokens are scanned left to right with a coordinate-slot counter; a token is a
  coordinate token if it starts with \<open>~\<close> or is a bare signed integer (digit
  characters, optionally preceded by \<open>-\<close>); a coordinate token advances the
  counter, whether it is resolved or not; \<open>~\<close> becomes \<open>origin[c mod 3]\<close>, \<open>~+N\<close> and
  \<open>~-N\<close> become \<open>origin[c mod 3]\<close> plus and minus \<open>N\<close>; every other token passes
  through. \<open>well_formed_offset\<close> holds of the tokens that do not start with \<open>~\<close> and
  of \<open>~\<close>, \<open>~+N\<close> and \<open>~-N\<close> with \<open>N\<close> a non-empty run of decimal digits.
\<close>

definition decimal :: "string \<Rightarrow> bool" where
  "decimal n = (n \<noteq> [] \<and> list_all re_digit n)"








section \<open>Tokens of a sanitized command\<close>

text \<open>
  \<open>bracket_stripped\<close> is the command after the four bracket substitutions of
  \<open>_clean_block_states\<close>, before the data values are removed. \<open>kept a b\<close> says that the
  token list \<open>a\<close> is \<open>b\<close> with some unsigned-integer tokens left out and nothing else
  touched.
\<close>

definition bracket_stripped :: "string \<Rightarrow> string" where
  "bracket_stripped command0 =
     re_sub [Lit ''['', Star NotRBracket, Lit '']''] []
       (re_sub [Lit ''[waterlogged='', Plus NotRBracket, Lit '']''] []
         (re_sub [Lit ''[type='', Plus NotRBracket, Lit '']''] []
           (re_sub [Lit ''[facing='', Plus NotRBracket, Lit '']''] [] command0)))"

definition kept :: "string list \<Rightarrow> string list \<Rightarrow> bool" where
  "kept a b = (subseq a b \<and> filter (\<lambda>t. \<not> decimal t) a = filter (\<lambda>t. \<not> decimal t) b)"

definition spaces :: "string \<Rightarrow> bool" where
  "spaces w = list_all py_isspace w"

definition no_space :: "string \<Rightarrow> bool" where
  "no_space t = list_all (\<lambda>c. \<not> py_isspace c) t"

definition opt_token :: "string \<Rightarrow> string list" where
  "opt_token cur = (if cur = [] then [] else [cur])"

section \<open>Records, requests and the ledger of the plugin\<close>

text \<open>
  The stores of \<open>ARCAIBuilderPlugin\<close> (\<open>on_load\<close>): the building records, kept in
  insertion order as the dictionary keeps them, the coordinate cache, the requests
  recorded when a generation starts (\<open>tracked_request\<close>), the per-player request
  cache (\<open>request\<close>), the two id counters, and the economy plugin, which is \<open>None\<close> or
  holds the balances. \<open>online_players\<close> gives the unique id of each player that
  \<open>server.get_player\<close> finds, \<open>clock\<close> is the reading of \<open>datetime.now()\<close>, and the
  messages sent to players are collected in \<open>messages\<close> (a message stands for its
  text; the percentage of a progress message is left out). Values that the source
  tests against \<open>None\<close> are options.
\<close>

datatype status = Pending | Building | Completed | Failed

record building_record =
  building_id :: nat
  owner_name :: string
  owner_uuid :: string
  center_x :: int
  center_y :: int
  center_z :: int
  dimension :: string
  record_size :: int
  requirements :: string
  record_estimated_cost :: int
  record_actual_cost :: int
  record_commands :: "string list"
  record_status :: status
  created_time :: nat
  completed_time :: "nat option"

record request =
  request_center_pos :: "point3 option"
  request_dimension :: "string option"
  request_size :: "int option"
  request_requirements :: "string option"
  request_commands :: "string list option"
  request_estimated_cost :: "int option"

record tracked_request =
  tracked_center_pos :: point3
  tracked_dimension :: string
  tracked_size :: int
  tracked_requirements :: string
  tracked_player :: string

text \<open>
  The dictionary handed to \<open>_confirm_building_with_record\<close>: each key that the
  function looks for may be absent.
\<close>

record record_dict =
  dict_id :: "nat option"
  dict_center_x :: "int option"
  dict_center_y :: "int option"
  dict_center_z :: "int option"
  dict_dimension :: "string option"
  dict_size :: "int option"
  dict_requirements :: "string option"

datatype message =
    Insufficient_funds
  | Deduct_failed
  | Position_lost
  | Build_started int
  | Build_position point3
  | Request_expired
  | Save_failed_refunded
  | Coordinates_missing_refunded
  | Commands_empty
  | Bad_position
  | Record_coordinates_missing
  | Record_not_found
  | Executing
  | Confirm_error
  | Progress_message nat nat
  | Build_complete
  | Generating
  | Design_ready
  | Generation_failed string
  | Generation_error string
  | Try_again

record plugin =
  economy_plugin :: "(string \<Rightarrow> int) option"
  building_records :: "(nat \<times> building_record) list"
  building_coordinates :: "(nat \<times> point3) list"
  next_building_id :: nat
  request_positions :: "(nat \<times> tracked_request) list"
  player_requests :: "(string \<times> request) list"
  next_request_id :: nat
  online_players :: "(string \<times> string) list"
  clock :: nat
  messages :: "(string \<times> message) list"

section \<open>Execution Engine\<close>

text \<open>
  \<open>CommandExecutor\<close>. \<open>on_progress\<close>, \<open>on_complete\<close> and \<open>plugin_self\<close> say whether the
  object was given a callback or a plugin (the source tests them for truth); the
  callbacks are the plugin's \<open>_on_build_progress\<close> and \<open>_on_build_complete\<close>, as
  \<open>on_enable\<close> wires them.
\<close>

record executor =
  on_progress :: bool
  on_complete :: bool
  plugin_self :: bool
  is_running :: bool
  current_progress :: nat
  total_commands :: nat

text \<open>
  A thread running \<open>_execute_commands_thread\<close>, with its arguments \<open>commands\<close>,
  \<open>player_name\<close> and \<open>center_pos\<close>, and the place it
  has reached: before the three assignments, before the test of \<open>center_pos\<close>, at the
  head of the loop for index \<open>i\<close>, after the loop, in the \<open>finally\<close> clause, or gone.
\<close>

datatype pc = Start | Check_origin | Loop nat | After_loop | Finally | Exited

record worker =
  pc :: pc
  arg_commands :: "string list"
  arg_player_name :: string
  arg_center_pos :: "point3 option"

text \<open>
  The closures handed to \<open>scheduler.run_task\<close>: they capture \<open>player_name\<close> and read
  \<open>current_progress\<close> and \<open>total_commands\<close> only when the main thread runs them.
\<close>

datatype callback = Progress_callback string | Complete_callback string

text \<open>
  A thread running \<open>generate_in_thread\<close> of \<open>_start_building_generation\<close>, with the
  variables it closes over, and what the planner can answer: commands with a cost, a
  failure with its reason, or an exception. The thread posts \<open>update_ui\<close>, or
  \<open>show_error\<close> after an exception, to the scheduler.
\<close>

record generation =
  gen_player :: string
  gen_center_pos :: point3
  gen_dimension :: string
  gen_size :: int
  gen_requirements :: string
  gen_request_id :: nat

record generator =
  gen_calling :: bool
  gen_args :: generation

datatype planner_result = Plan_ok "string list" int | Plan_failed string | Plan_raised string

datatype ui_task = Update_ui generation planner_result | Show_error string string

datatype event = Progress_event string nat nat | Complete_event string nat nat

text \<open>
  The whole: the executor object, its threads, the calls of \<open>dispatch_command\<close> made
  so far (with whether each returned or raised), the tasks that the executor's
  threads have handed to the scheduler, the callback invocations made on the main
  thread, the plugin, the generation threads and the tasks they have handed to the
  scheduler.
\<close>

record world =
  executor :: executor
  threads :: "worker list"
  dispatched :: "(string \<times> bool) list"
  scheduled :: "callback list"
  delivered :: "event list"
  plugin :: plugin
  generators :: "generator list"
  ui_tasks :: "ui_task list"

definition execute_commands_async :: "world \<Rightarrow> string list \<Rightarrow> string \<Rightarrow> point3 option \<Rightarrow> world" where
  "execute_commands_async w cmds name pos =
     (if is_running (executor w) then w
      else w\<lparr>threads := threads w @
             [\<lparr>pc = Start, arg_commands = cmds, arg_player_name = name, arg_center_pos = pos\<rparr>]\<rparr>)"

definition stop_execution :: "world \<Rightarrow> world" where
  "stop_execution w = w\<lparr>executor := (executor w)\<lparr>is_running := False\<rparr>\<rparr>"

text \<open>
  One step of \<open>_execute_commands_thread\<close>. \<open>ok\<close> tells whether the call of
  \<open>dispatch_command\<close> made in this step, if any, returns rather than raises. The
  sanitizer and the resolver do not raise (unpacking an absent \<open>center_pos\<close> raises
  inside the resolver's own \<open>try\<close>, which returns the command; the loop is not
  reached with one); an exception raised after the progress
  callback is scheduled (a malformed \<open>build_delay\<close>) is caught by the same handler and
  changes nothing. A step of the loop reads \<open>is_running\<close> once, at its head.
\<close>

definition thread_step :: "bool \<Rightarrow> worker \<Rightarrow> world \<Rightarrow> worker \<times> world" where
  "thread_step ok t w =
     (case pc t of
        Start \<Rightarrow>
          (t\<lparr>pc := Check_origin\<rparr>,
           w\<lparr>executor := (executor w)\<lparr>is_running := True,
                total_commands := length (arg_commands t), current_progress := 0\<rparr>\<rparr>)
      | Check_origin \<Rightarrow>
          (case arg_center_pos t of
             None \<Rightarrow> (t\<lparr>pc := Finally\<rparr>, w)
           | Some pos \<Rightarrow> (t\<lparr>pc := Loop 0\<rparr>, w))
      | Loop i \<Rightarrow>
          (if i < length (arg_commands t) then
             (if \<not> is_running (executor w) then (t\<lparr>pc := After_loop\<rparr>, w)
              else
                (let cleaned_command = clean_block_states (arg_commands t ! i);
                     absolute_command =
                       (case arg_center_pos t of
                          None \<Rightarrow> cleaned_command
                        | Some pos \<Rightarrow> convert_relative_coords cleaned_command pos);
                     w1 = w\<lparr>dispatched := dispatched w @ [(absolute_command, ok)]\<rparr>
                 in if ok then
                      (let w2 = w1\<lparr>executor := (executor w1)\<lparr>current_progress := i + 1\<rparr>\<rparr>;
                           w3 = (if on_progress (executor w2) \<and> plugin_self (executor w2)
                                 then w2\<lparr>scheduled := scheduled w2 @ [Progress_callback (arg_player_name t)]\<rparr>
                                 else w2)
                       in (t\<lparr>pc := Loop (i + 1)\<rparr>, w3))
                    else (t\<lparr>pc := Loop (i + 1)\<rparr>, w1)))
           else (t\<lparr>pc := After_loop\<rparr>, w))
      | After_loop \<Rightarrow>
          (t\<lparr>pc := Finally\<rparr>,
           if on_complete (executor w) \<and> plugin_self (executor w)
           then w\<lparr>scheduled := scheduled w @ [Complete_callback (arg_player_name t)]\<rparr>
           else w)
      | Finally \<Rightarrow>
          (t\<lparr>pc := Exited\<rparr>, w\<lparr>executor := (executor w)\<lparr>is_running := False\<rparr>\<rparr>)
      | Exited \<Rightarrow> (t, w))"

section \<open>Orchestrator\<close>

definition tell :: "string \<Rightarrow> message \<Rightarrow> plugin \<Rightarrow> plugin" where
  "tell name m p = p\<lparr>messages := messages p @ [(name, m)]\<rparr>"

definition get_player_uuid :: "plugin \<Rightarrow> string \<Rightarrow> string" where
  "get_player_uuid p name =
     (case map_of (online_players p) name of
        Some uuid \<Rightarrow> uuid
      | None \<Rightarrow> ''offline_'' @ name)"

text \<open>\<open>_get_player_money\<close>, \<open>_deduct_money\<close> and \<open>_add_money\<close>.\<close>

definition get_player_money :: "plugin \<Rightarrow> string \<Rightarrow> int" where
  "get_player_money p name =
     (case economy_plugin p of None \<Rightarrow> 0 | Some money \<Rightarrow> money name)"

definition deduct_money :: "plugin \<Rightarrow> string \<Rightarrow> int \<Rightarrow> bool \<times> plugin" where
  "deduct_money p name amount =
     (case economy_plugin p of
        None \<Rightarrow> (False, p)
      | Some money \<Rightarrow>
          if amount \<le> 0 then (False, p)
          else (True, p\<lparr>economy_plugin := Some (money(name := money name - amount))\<rparr>))"

definition add_money :: "plugin \<Rightarrow> string \<Rightarrow> int \<Rightarrow> bool \<times> plugin" where
  "add_money p name amount =
     (case economy_plugin p of
        None \<Rightarrow> (False, p)
      | Some money \<Rightarrow>
          if amount \<le> 0 then (False, p)
          else (True, p\<lparr>economy_plugin := Some (money(name := money name + amount))\<rparr>))"

text \<open>\<open>_update_building_status\<close>.\<close>

definition update_building_status :: "nat \<Rightarrow> status \<Rightarrow> plugin \<Rightarrow> plugin" where
  "update_building_status bid st p =
     (case map_of (building_records p) bid of
        None \<Rightarrow> p
      | Some r \<Rightarrow>
          (let r1 = r\<lparr>record_status := st\<rparr>;
               r2 = (if st = Completed \<or> st = Failed then r1\<lparr>completed_time := Some (clock p)\<rparr> else r1);
               p1 = p\<lparr>building_records := AList.update bid r2 (building_records p)\<rparr>
           in if st = Completed \<or> st = Failed
              then p1\<lparr>building_coordinates := AList.delete bid (building_coordinates p1)\<rparr>
              else p1))"

text \<open>\<open>_on_build_progress\<close> and \<open>_on_build_complete\<close>, the callbacks of the executor.\<close>

definition on_build_progress :: "string \<Rightarrow> nat \<Rightarrow> nat \<Rightarrow> plugin \<Rightarrow> plugin" where
  "on_build_progress name done_count total_count p =
     (case map_of (online_players p) name of
        None \<Rightarrow> p
      | Some uuid \<Rightarrow> tell name (Progress_message done_count total_count) p)"

definition on_build_complete :: "string \<Rightarrow> nat \<Rightarrow> nat \<Rightarrow> plugin \<Rightarrow> plugin" where
  "on_build_complete name done_count total_count p =
     (let p1 = (case find (\<lambda>(bid, r). owner_name r = name \<and> record_status r = Building)
                       (building_records p) of
                  None \<Rightarrow> p
                | Some (bid, r) \<Rightarrow> if bid \<noteq> 0 then update_building_status bid Completed p else p)
      in case map_of (online_players p1) name of
           None \<Rightarrow> p1
         | Some uuid \<Rightarrow> tell name Build_complete p1)"

text \<open>
  \<open>_save_building_record\<close>: \<open>None\<close> when a required value is \<open>None\<close>, otherwise the
  record is stored under a fresh id, with status \<open>building\<close>.
\<close>

definition save_building_record :: "plugin \<Rightarrow> string \<Rightarrow> request \<Rightarrow> nat option \<times> plugin" where
  "save_building_record p name rq =
     (case (request_center_pos rq, request_dimension rq, request_size rq,
            request_requirements rq, request_estimated_cost rq, request_commands rq) of
        (Some (x, y, z), Some dim, Some sz, Some reqs, Some cost, Some cmds) \<Rightarrow>
          (let bid = next_building_id p;
               p1 = p\<lparr>next_building_id := next_building_id p + 1\<rparr>;
               building_data =
                 \<lparr>building_id = bid, owner_name = name, owner_uuid = get_player_uuid p name,
                  center_x = x, center_y = y, center_z = z, dimension = dim, record_size = sz,
                  requirements = reqs, record_estimated_cost = cost, record_actual_cost = cost,
                  record_commands = cmds, record_status = Building,
                  created_time = clock p, completed_time = None\<rparr>;
               p2 = p1\<lparr>building_records := AList.update bid building_data (building_records p1)\<rparr>;
               p3 = p2\<lparr>building_coordinates := AList.update bid (x, y, z) (building_coordinates p2)\<rparr>
           in (Some bid, p3))
      | _ \<Rightarrow> (None, p))"

text \<open>The plugin methods that run on the world: they start the executor.\<close>

definition on_plugin :: "(plugin \<Rightarrow> plugin) \<Rightarrow> world \<Rightarrow> world" where
  "on_plugin f w = w\<lparr>plugin := f (plugin w)\<rparr>"

text \<open>\<open>_execute_building_commands_direct\<close>.\<close>

definition execute_building_commands_direct ::
  "world \<Rightarrow> string \<Rightarrow> string list option \<Rightarrow> nat \<Rightarrow> point3 option \<Rightarrow> world" where
  "execute_building_commands_direct w name cmds bid pos =
     (case cmds of
        None \<Rightarrow> on_plugin (update_building_status bid Failed) (on_plugin (tell name Commands_empty) w)
      | Some cs \<Rightarrow>
          (case pos of
             None \<Rightarrow> on_plugin (update_building_status bid Failed) (on_plugin (tell name Bad_position) w)
           | Some c \<Rightarrow>
               on_plugin (tell name Executing)
                 (on_plugin (update_building_status bid Building)
                   (execute_commands_async w cs name (Some c)))))"

text \<open>\<open>_execute_building_commands\<close>: the position is read from the stored record.\<close>

definition execute_building_commands ::
  "world \<Rightarrow> string \<Rightarrow> string list option \<Rightarrow> nat \<Rightarrow> world" where
  "execute_building_commands w name cmds bid =
     (case cmds of
        None \<Rightarrow> on_plugin (update_building_status bid Failed) (on_plugin (tell name Commands_empty) w)
      | Some cs \<Rightarrow>
          (case map_of (building_records (plugin w)) bid of
             None \<Rightarrow> on_plugin (tell name Record_not_found) w
           | Some r \<Rightarrow>
               on_plugin (tell name Executing)
                 (on_plugin (update_building_status bid Building)
                   (execute_commands_async w cs name
                      (Some (center_x r, center_y r, center_z r))))))"

text \<open>
  \<open>_confirm_building\<close>. With commands and a cost it is the confirmation of a fresh
  design, which reads the request recorded under \<open>request_id\<close>; without them it reads
  the per-player cache. \<open>not building_id\<close> holds of \<open>None\<close> and of 0, as
  \<open>request_id\<close> is true of neither.
\<close>

definition confirm_building ::
  "world \<Rightarrow> string \<Rightarrow> string list option \<Rightarrow> int option \<Rightarrow> nat option \<Rightarrow> world" where
  "confirm_building w name cmds cost request_id =
     (case (cmds, cost) of
        (Some commands, Some estimated_cost) \<Rightarrow>
          (if get_player_money (plugin w) name < estimated_cost
           then on_plugin (tell name Insufficient_funds) w
           else
             (case deduct_money (plugin w) name estimated_cost of
                (False, p) \<Rightarrow> on_plugin (tell name Deduct_failed) (w\<lparr>plugin := p\<rparr>)
              | (True, p) \<Rightarrow>
                  (case (case request_id of
                           None \<Rightarrow> None
                         | Some rid \<Rightarrow> if rid \<noteq> 0 then map_option (Pair rid) (map_of (request_positions p) rid) else None) of
                     Some (rid, request_data) \<Rightarrow>
                       (let (x, y, z) = tracked_center_pos request_data;
                            bid = next_building_id p;
                            p1 = p\<lparr>next_building_id := next_building_id p + 1\<rparr>;
                            building_data =
                              \<lparr>building_id = bid, owner_name = name,
                               owner_uuid = get_player_uuid p1 name,
                               center_x = x, center_y = y, center_z = z,
                               dimension = tracked_dimension request_data,
                               record_size = tracked_size request_data,
                               requirements = tracked_requirements request_data,
                               record_estimated_cost = estimated_cost, record_actual_cost = estimated_cost,
                               record_commands = commands, record_status = Building,
                               created_time = clock p1, completed_time = None\<rparr>;
                            p2 = p1\<lparr>building_records := AList.update bid building_data (building_records p1)\<rparr>;
                            w1 = execute_building_commands_direct (w\<lparr>plugin := p2\<rparr>) name
                                   (Some commands) bid (Some (x, y, z));
                            w2 = on_plugin (\<lambda>q. q\<lparr>request_positions := AList.delete rid (request_positions q)\<rparr>) w1
                        in on_plugin (tell name (Build_position (x, y, z)))
                             (on_plugin (tell name (Build_started estimated_cost)) w2))
                   | None \<Rightarrow> on_plugin (tell name Position_lost) (w\<lparr>plugin := p\<rparr>))))
      | _ \<Rightarrow>
          (case map_of (player_requests (plugin w)) name of
             None \<Rightarrow> on_plugin (tell name Request_expired) w
           | Some rq \<Rightarrow>
               (case request_estimated_cost rq of
                  None \<Rightarrow> on_plugin (tell name Confirm_error) w
                | Some estimated_cost \<Rightarrow>
                    if get_player_money (plugin w) name < estimated_cost
                    then on_plugin (tell name Insufficient_funds) w
                    else
                      (case deduct_money (plugin w) name estimated_cost of
                         (False, p) \<Rightarrow> on_plugin (tell name Deduct_failed) (w\<lparr>plugin := p\<rparr>)
                       | (True, p) \<Rightarrow>
                           (case save_building_record p name rq of
                              (None, p1) \<Rightarrow>
                                on_plugin (tell name Save_failed_refunded)
                                  (w\<lparr>plugin := snd (add_money p1 name estimated_cost)\<rparr>)
                            | (Some bid, p1) \<Rightarrow>
                                if bid = 0 then
                                  on_plugin (tell name Save_failed_refunded)
                                    (w\<lparr>plugin := snd (add_money p1 name estimated_cost)\<rparr>)
                                else
                                  (let w1 = execute_building_commands (w\<lparr>plugin := p1\<rparr>) name
                                              (request_commands rq) bid;
                                       w2 = on_plugin (\<lambda>q. q\<lparr>player_requests := AList.delete name (player_requests q)\<rparr>) w1
                                   in on_plugin (tell name (Build_started estimated_cost)) w2))))))"

text \<open>
  \<open>_confirm_building_with_record\<close>: the confirmation of a stored design. The default
  of \<open>requirements\<close> stands for the source's literal.
\<close>

definition confirm_building_with_record ::
  "world \<Rightarrow> string \<Rightarrow> string list option \<Rightarrow> int \<Rightarrow> record_dict option \<Rightarrow> world" where
  "confirm_building_with_record w name cmds estimated_cost rec =
     (if get_player_money (plugin w) name < estimated_cost
      then on_plugin (tell name Insufficient_funds) w
      else
        (case deduct_money (plugin w) name estimated_cost of
           (False, p) \<Rightarrow> on_plugin (tell name Deduct_failed) (w\<lparr>plugin := p\<rparr>)
         | (True, p) \<Rightarrow>
             (case (case rec of
                      None \<Rightarrow> None
                    | Some d \<Rightarrow>
                        (case (dict_center_x d, dict_center_y d, dict_center_z d) of
                           (Some x, Some y, Some z) \<Rightarrow> Some (d, (x, y, z))
                         | _ \<Rightarrow> None)) of
                None \<Rightarrow>
                  on_plugin (tell name Coordinates_missing_refunded)
                    (w\<lparr>plugin := snd (add_money p name estimated_cost)\<rparr>)
              | Some (d, pos) \<Rightarrow>
                  (let rq = \<lparr>request_center_pos = Some pos,
                             request_dimension = Some (case dict_dimension d of None \<Rightarrow> ''Overworld'' | Some dim \<Rightarrow> dim),
                             request_size = Some (case dict_size d of None \<Rightarrow> 10 | Some sz \<Rightarrow> sz),
                             request_requirements = Some (case dict_requirements d of None \<Rightarrow> ''re-confirmed building'' | Some reqs \<Rightarrow> reqs),
                             request_commands = cmds,
                             request_estimated_cost = Some estimated_cost\<rparr>
                   in case save_building_record p name rq of
                        (None, p1) \<Rightarrow>
                          on_plugin (tell name Save_failed_refunded)
                            (w\<lparr>plugin := snd (add_money p1 name estimated_cost)\<rparr>)
                      | (Some bid, p1) \<Rightarrow>
                          if bid = 0 then
                            on_plugin (tell name Save_failed_refunded)
                              (w\<lparr>plugin := snd (add_money p1 name estimated_cost)\<rparr>)
                          else
                            (case dict_id d of
                               None \<Rightarrow> on_plugin (tell name Confirm_error) (w\<lparr>plugin := p1\<rparr>)
                             | Some old \<Rightarrow>
                                 (let p2 = p1\<lparr>building_records := AList.delete old (building_records p1)\<rparr>;
                                      w1 = execute_building_commands (w\<lparr>plugin := p2\<rparr>) name cmds bid
                                  in on_plugin (tell name (Build_position pos))
                                       (on_plugin (tell name (Build_started estimated_cost)) w1)))))))"

text \<open>
  \<open>_start_building_generation\<close> on the main thread (its arguments are not \<open>None\<close>
  here): the request is recorded under a fresh id and the generation thread is
  started. \<open>generator_step\<close> is the thread: it calls the planner and posts the
  closure. \<open>run_ui_task\<close> is the closure when the main thread runs it; showing the
  confirmation panel is left to the presentation layer.
\<close>

definition start_building_generation ::
  "world \<Rightarrow> string \<Rightarrow> point3 \<Rightarrow> string \<Rightarrow> int \<Rightarrow> string \<Rightarrow> world" where
  "start_building_generation w name pos dim sz reqs =
     (let p = plugin w;
          request_id = next_request_id p;
          p1 = p\<lparr>next_request_id := next_request_id p + 1\<rparr>;
          p2 = p1\<lparr>request_positions :=
                  AList.update request_id
                    \<lparr>tracked_center_pos = pos, tracked_dimension = dim, tracked_size = sz,
                     tracked_requirements = reqs, tracked_player = name\<rparr>
                    (request_positions p1)\<rparr>;
          p3 = tell name Generating p2
      in w\<lparr>plugin := p3,
            generators := generators w @
              [\<lparr>gen_calling = True,
                gen_args = \<lparr>gen_player = name, gen_center_pos = pos, gen_dimension = dim,
                            gen_size = sz, gen_requirements = reqs,
                            gen_request_id = request_id\<rparr>\<rparr>]\<rparr>)"

definition generator_step :: "planner_result \<Rightarrow> generator \<Rightarrow> world \<Rightarrow> generator \<times> world" where
  "generator_step r g w =
     (if gen_calling g then
        (g\<lparr>gen_calling := False\<rparr>,
         w\<lparr>ui_tasks := ui_tasks w @
              [case r of
                 Plan_raised e \<Rightarrow> Show_error (gen_player (gen_args g)) e
               | _ \<Rightarrow> Update_ui (gen_args g) r]\<rparr>)
      else (g, w))"

definition run_ui_task :: "ui_task \<Rightarrow> plugin \<Rightarrow> plugin" where
  "run_ui_task u p =
     (case u of
        Update_ui a (Plan_ok cmds cost) \<Rightarrow>
          tell (gen_player a) Design_ready
            (p\<lparr>player_requests :=
                 AList.update (gen_player a)
                   \<lparr>request_center_pos = Some (gen_center_pos a),
                    request_dimension = Some (gen_dimension a),
                    request_size = Some (gen_size a),
                    request_requirements = Some (gen_requirements a),
                    request_commands = Some cmds,
                    request_estimated_cost = Some cost\<rparr>
                   (player_requests p)\<rparr>)
      | Update_ui a (Plan_failed e) \<Rightarrow>
          tell (gen_player a) Try_again (tell (gen_player a) (Generation_failed e) p)
      | Update_ui a (Plan_raised e) \<Rightarrow>
          tell (gen_player a) Try_again (tell (gen_player a) (Generation_failed e) p)
      | Show_error name e \<Rightarrow>
          tell name Try_again (tell name (Generation_error e) p))"

section \<open>Schedules\<close>

text \<open>
  The main thread runs the oldest task of the scheduler: the closure reads the
  counters of the executor as they are then, and calls the plugin's handler.
\<close>

definition run_callback :: "callback \<Rightarrow> world \<Rightarrow> world" where
  "run_callback cb w =
     (case cb of
        Progress_callback name \<Rightarrow>
          w\<lparr>delivered := delivered w @
               [Progress_event name (current_progress (executor w)) (total_commands (executor w))],
            plugin := on_build_progress name (current_progress (executor w))
                        (total_commands (executor w)) (plugin w)\<rparr>
      | Complete_callback name \<Rightarrow>
          w\<lparr>delivered := delivered w @
               [Complete_event name (current_progress (executor w)) (total_commands (executor w))],
            plugin := on_build_complete name (current_progress (executor w))
                        (total_commands (executor w)) (plugin w)\<rparr>)"

text \<open>
  What can happen next. On the main thread: a call of \<open>execute_commands_async\<close>, of
  \<open>stop_execution\<close>, of \<open>_start_building_generation\<close> or of one of the two
  confirmations, or the scheduler runs the
  oldest task that the executor's threads, or the generation threads, have posted. In
  the background: thread \<open>k\<close> of the executor takes its next step, or generation
  thread \<open>k\<close> gets the planner's answer. \<open>background\<close> tells the two kinds apart.
\<close>

datatype action =
    Execute "string list" string "point3 option"
  | Stop
  | Main_task
  | Thread_step nat bool
  | Start_generation string point3 string int string
  | Confirm string "string list option" "int option" "nat option"
  | Confirm_with_record string "string list option" int "record_dict option"
  | Main_ui_task
  | Generator_step nat planner_result

fun background :: "action \<Rightarrow> bool" where
  "background (Thread_step k ok) = True"
| "background (Generator_step k r) = True"
| "background a = False"

definition step :: "action \<Rightarrow> world \<Rightarrow> world" where
  "step a w =
     (case a of
        Execute cmds name pos \<Rightarrow> execute_commands_async w cmds name pos
      | Stop \<Rightarrow> stop_execution w
      | Main_task \<Rightarrow>
          (case scheduled w of
             [] \<Rightarrow> w
           | cb # rest \<Rightarrow> run_callback cb (w\<lparr>scheduled := rest\<rparr>))
      | Thread_step k ok \<Rightarrow>
          (if k < length (threads w) then
             (let (t, w1) = thread_step ok (threads w ! k) w
              in w1\<lparr>threads := (threads w1)[k := t]\<rparr>)
           else w)
      | Start_generation name pos dim sz reqs \<Rightarrow>
          start_building_generation w name pos dim sz reqs
      | Confirm name cmds cost request_id \<Rightarrow>
          confirm_building w name cmds cost request_id
      | Confirm_with_record name cmds cost rec \<Rightarrow>
          confirm_building_with_record w name cmds cost rec
      | Main_ui_task \<Rightarrow>
          (case ui_tasks w of
             [] \<Rightarrow> w
           | u # rest \<Rightarrow> w\<lparr>ui_tasks := rest, plugin := run_ui_task u (plugin w)\<rparr>)
      | Generator_step k r \<Rightarrow>
          (if k < length (generators w) then
             (let (g, w1) = generator_step r (generators w ! k) w
              in w1\<lparr>generators := (generators w1)[k := g]\<rparr>)
           else w))"

definition run :: "action list \<Rightarrow> world \<Rightarrow> world" where
  "run as w = fold step as w"

text \<open>
  The plugin and the executor after \<open>on_load\<close> and \<open>on_enable\<close>, with a given economy
  plugin: empty stores, counters at 1, an idle executor wired to the plugin.
\<close>

definition initial_plugin :: "(string \<Rightarrow> int) option \<Rightarrow> plugin" where
  "initial_plugin eco =
     \<lparr>economy_plugin = eco, building_records = [], building_coordinates = [],
      next_building_id = 1, request_positions = [], player_requests = [],
      next_request_id = 1, online_players = [], clock = 0, messages = []\<rparr>"

definition initial_world :: "(string \<Rightarrow> int) option \<Rightarrow> world" where
  "initial_world eco =
     \<lparr>executor = \<lparr>on_progress = True, on_complete = True, plugin_self = True,
                  is_running = False, current_progress = 0, total_commands = 0\<rparr>,
      threads = [], dispatched = [], scheduled = [], delivered = [],
      plugin = initial_plugin eco, generators = [], ui_tasks = []\<rparr>"

section \<open>The outcomes of a run\<close>

text \<open>
  \<open>last_ok outs\<close> is the 1-based index of the last success in a list of dispatch
  outcomes, 0 when there is none. \<open>is_execute\<close> holds of the actions that call
  \<open>execute_commands_async\<close>, directly or through a confirmation. \<open>absolute_command\<close> is what the loop body hands to
  \<open>dispatch_command\<close>. \<open>one_run\<close> is the invariant of a world in which one call of
  \<open>execute\<close> has been made: the \<open>j\<close>-th dispatch is that of the \<open>j\<close>-th command, the
  progress counter is the index of the last success, every delivered event carries
  the index of the last success among the dispatches made before it, and a
  completion event is scheduled only once the thread has left the loop.
\<close>

definition last_ok :: "bool list \<Rightarrow> nat" where
  "last_ok outs = length (dropWhile Not (rev outs))"

definition absolute_command :: "point3 option \<Rightarrow> string \<Rightarrow> string" where
  "absolute_command pos command =
     (case pos of
        None \<Rightarrow> clean_block_states command
      | Some p \<Rightarrow> convert_relative_coords (clean_block_states command) p)"

fun done_count :: "event \<Rightarrow> nat" where
  "done_count (Progress_event name d t) = d"
| "done_count (Complete_event name d t) = d"






section \<open>Properties of the string functions\<close>

lemma digit_char_digit: "d < 10 \<Longrightarrow> re_digit (digit_char d)"
  by (simp add: re_digit_def digit_char_def)

lemma nat_digits_digits: "list_all re_digit (nat_digits n)"
proof (induction n rule: nat_digits.induct)
  case (1 n)
  show ?case
  proof (cases "n < 10")
    case True
    then show ?thesis by (subst nat_digits.simps) (simp add: digit_char_digit)
  next
    case False
    with 1 show ?thesis by (subst nat_digits.simps) (simp add: digit_char_digit)
  qed
qed

lemma nat_digits_nonempty: "nat_digits n \<noteq> []"
  by (subst nat_digits.simps) simp

lemma plain_not_space: "plain_char c \<Longrightarrow> \<not> py_isspace c"
  by (auto simp: plain_char_def re_digit_def py_isspace_def)

lemma plain_not_tilde: "plain_char c \<Longrightarrow> c \<noteq> CHR ''~''"
  by (auto simp: plain_char_def re_digit_def)

lemma py_str_plain: "list_all plain_char (py_str i)"
  using nat_digits_digits[of "nat i"] nat_digits_digits[of "nat (- i)"]
  by (auto simp: py_str_def plain_char_def list_all_iff)

lemma py_str_nonempty: "py_str i \<noteq> []"
  by (simp add: py_str_def nat_digits_nonempty)

lemma split_aux_tokens:
  "list_all (\<lambda>c. \<not> py_isspace c) cur \<Longrightarrow> list_all token (split_aux cur s)"
  by (induction s arbitrary: cur) (auto simp: token_def)

lemma py_split_tokens: "list_all token (py_split s)"
  by (simp add: py_split_def split_aux_tokens)

lemma split_aux_token_app:
  "list_all (\<lambda>c. \<not> py_isspace c) t \<Longrightarrow> split_aux cur (t @ s) = split_aux (cur @ t) s"
  by (induction t arbitrary: cur) auto

lemma py_split_join: "list_all token ts \<Longrightarrow> py_split (py_join ts) = ts"
proof (induction ts rule: py_join.induct)
  case 1
  then show ?case by (simp add: py_split_def)
next
  case (2 p)
  then show ?case
    using split_aux_token_app[of p "[]" "[]"] by (simp add: py_split_def token_def)
next
  case (3 p q ps)
  then have "py_split (py_join (q # ps)) = q # ps" by simp
  moreover have "split_aux [] (p @ CHR '' '' # py_join (q # ps)) = p # split_aux [] (py_join (q # ps))"
    using 3(2) split_aux_token_app[of p "[]" "CHR '' '' # py_join (q # ps)"]
    by (simp add: token_def py_isspace_def)
  ultimately show ?case by (simp add: py_split_def)
qed

lemma py_str_resolved: "resolved (py_str i)"
proof -
  have ne: "py_str i \<noteq> []" by (rule py_str_nonempty)
  have pl: "list_all plain_char (py_str i)" by (rule py_str_plain)
  from ne obtain c r where cr: "py_str i = c # r" by (cases "py_str i") auto
  with pl have "plain_char c" by simp
  then have "c \<noteq> CHR ''~''" by (rule plain_not_tilde)
  moreover have "list_all (\<lambda>c. \<not> py_isspace c) (py_str i)"
    using pl by (auto simp: list_all_iff plain_not_space)
  ultimately show ?thesis using cr by (simp add: resolved_def token_def startswith_def)
qed

lemma mod3_cases: "(c::nat) mod 3 = 0 \<or> c mod 3 = 1 \<or> c mod 3 = 2"
  by arith

lemma convert_parts_Nil: "convert_parts p c [] = Some []"
  by (cases p) simp

lemma convert_parts_step:
  "convert_parts p c (part # parts) =
     (if startswith part ''~'' then
        (case offset_of part of
           None \<Rightarrow> None
         | Some off \<Rightarrow> map_option ((#) (py_str (axis p c + off))) (convert_parts p (c + 1) parts))
      else map_option ((#) part) (convert_parts p (if counted part then c + 1 else c) parts))"
proof -
  obtain x y z where p: "p = (x, y, z)" by (cases p) auto
  have m: "c mod 3 \<noteq> 0 \<Longrightarrow> c mod 3 \<noteq> 1 \<Longrightarrow> c mod 3 = 2" by arith
  show ?thesis
  proof (cases "startswith part ''~''")
    case False
    then show ?thesis by (simp add: p counted_def)
  next
    case True
    note st = True
    show ?thesis
    proof (cases "part = ''~''")
      case True
      then show ?thesis using m by (simp add: p axis_def offset_of_def startswith_def)
    next
      case False
      show ?thesis
      proof (cases "offset_of part")
        case None
        then show ?thesis using st False
          by (simp add: p offset_of_def Let_def split: if_splits)
      next
        case (Some off)
        then show ?thesis using st False m
          by (simp add: p offset_of_def axis_def Let_def split: if_splits)
      qed
    qed
  qed
qed

lemma convert_parts_resolved:
  "convert_parts p c ps = Some qs \<Longrightarrow> list_all token ps \<Longrightarrow> list_all resolved qs"
proof (induction ps arbitrary: c qs)
  case Nil
  then show ?case by (simp add: convert_parts_Nil)
next
  case (Cons t ts)
  from Cons.prems(2) have tt: "token t" and tts: "list_all token ts" by auto
  show ?case
  proof (cases "startswith t ''~''")
    case True
    with Cons.prems(1) obtain off rest where
      "qs = py_str (axis p c + off) # rest" "convert_parts p (c + 1) ts = Some rest"
      by (auto simp: convert_parts_step split: option.splits)
    with Cons.IH[OF _ tts] show ?thesis by (simp add: py_str_resolved)
  next
    case False
    with Cons.prems(1) obtain rest where
      "qs = t # rest" "convert_parts p (if counted t then c + 1 else c) ts = Some rest"
      by (auto simp: convert_parts_step)
    with Cons.IH[OF _ tts] False tt show ?thesis by (simp add: resolved_def)
  qed
qed

lemma convert_parts_fixed:
  "list_all resolved qs \<Longrightarrow> convert_parts p c qs = Some qs"
proof (induction qs arbitrary: c)
  case Nil
  then show ?case by (simp add: convert_parts_Nil)
next
  case (Cons t ts)
  from Cons.prems have nt: "\<not> startswith t ''~''" and r: "list_all resolved ts"
    by (simp_all add: resolved_def list_all_iff)
  show ?case using nt Cons.IH[OF r] by (simp add: convert_parts_step)
qed

lemma resolved_token: "list_all resolved qs \<Longrightarrow> list_all token qs"
  by (simp add: list_all_iff resolved_def)

section \<open>The coordinate scan follows the counter rule\<close>

lemma digit_not_space: "re_digit c \<Longrightarrow> \<not> py_isspace c"
  by (auto simp: re_digit_def py_isspace_def)












section \<open>What the digit substitutions do to the tokens\<close>

lemma clean_block_states_alt:
  "clean_block_states s =
     py_strip (re_sub [Plus Space] '' ''
       (re_sub [Plus Space, Plus Digit, Plus Space] '' ''
         (re_sub [Plus Space, Plus Digit, Dollar] [] (bracket_stripped s))))"
  by (simp add: clean_block_states_def bracket_stripped_def)

lemma kept_refl: "kept a a"
  by (simp add: kept_def)

lemma kept_trans: "kept a b \<Longrightarrow> kept b c \<Longrightarrow> kept a c"
  by (auto simp: kept_def intro: subseq_order.trans)

lemma kept_Cons: "kept a b \<Longrightarrow> kept (t # a) (t # b)"
  by (simp add: kept_def)

lemma kept_drop: "decimal d \<Longrightarrow> kept a b \<Longrightarrow> kept a (d # b)"
  by (auto simp: kept_def)

lemma split_aux_space:
  "py_isspace c \<Longrightarrow> split_aux cur (c # s) = (if cur = [] then [] else [cur]) @ split_aux [] s"
  by simp

lemma split_aux_spaces:
  "spaces w \<Longrightarrow> w \<noteq> [] \<Longrightarrow> split_aux cur (w @ s) = (if cur = [] then [] else [cur]) @ split_aux [] s"
proof (induction w arbitrary: cur)
  case Nil
  then show ?case by simp
next
  case (Cons c w)
  show ?case
  proof (cases "w = []")
    case True
    with Cons.prems show ?thesis by (simp add: spaces_def)
  next
    case False
    with Cons show ?thesis by (simp add: spaces_def)
  qed
qed

lemma split_aux_no_space:
  "no_space t \<Longrightarrow> split_aux cur (t @ s) = split_aux (cur @ t) s"
  by (simp add: no_space_def split_aux_token_app)

lemma first_some_map:
  "first_some (map f ks) = Some r \<Longrightarrow> \<exists>k \<in> set ks. f k = Some r"
proof (induction ks)
  case Nil
  then show ?case by simp
next
  case (Cons k ks)
  then show ?case by (cases "f k") auto
qed

lemma take_takeWhile: "k \<le> length (takeWhile P s) \<Longrightarrow> list_all P (take k s)"
proof -
  assume k: "k \<le> length (takeWhile P s)"
  have "take k s = take k (takeWhile P s @ dropWhile P s)" by simp
  also have "\<dots> = take k (takeWhile P s)" using k by (simp del: takeWhile_dropWhile_id)
  finally have "set (take k s) \<subseteq> set (takeWhile P s)" by (simp add: set_take_subset)
  then show ?thesis by (auto simp: list_all_iff dest: set_takeWhileD)
qed

lemma rmatch_Plus:
  assumes "rmatch (Plus c # as) s = Some r"
  shows "\<exists>a s'. s = a @ s' \<and> a \<noteq> [] \<and> list_all (in_cls c) a \<and> rmatch as s' = Some r"
proof -
  from assms have "first_some (map (\<lambda>k. rmatch as (drop k s))
      (rev [1 ..< Suc (length (takeWhile (in_cls c) s))])) = Some r"
    by (simp only: rmatch.simps)
  from first_some_map[OF this]
  obtain k where k: "k \<in> set (rev [1 ..< Suc (length (takeWhile (in_cls c) s))])"
      and m: "rmatch as (drop k s) = Some r"
    by blast
  then have k1: "1 \<le> k" and k2: "k \<le> length (takeWhile (in_cls c) s)" by auto
  have "k \<le> length s" using k2 length_takeWhile_le[of "in_cls c" s] by linarith
  with k1 have "take k s \<noteq> []" by auto
  moreover have "list_all (in_cls c) (take k s)" using k2 by (rule take_takeWhile)
  moreover have "s = take k s @ drop k s" by simp
  ultimately show ?thesis using m by blast
qed

lemma rmatch_Dollar:
  "rmatch [Dollar] s = Some r \<Longrightarrow> r = s \<and> (s = [] \<or> s = [CHR 0x0A])"
  by (auto split: if_splits)

lemma rmatch_trailing:
  assumes "rmatch [Plus Space, Plus Digit, Dollar] s = Some r"
  shows "\<exists>w d. s = w @ d @ r \<and> w \<noteq> [] \<and> spaces w \<and> decimal d \<and> (r = [] \<or> r = [CHR 0x0A])"
proof -
  from rmatch_Plus[OF assms] obtain w s1 where
    1: "s = w @ s1" "w \<noteq> []" "list_all (in_cls Space) w" "rmatch [Plus Digit, Dollar] s1 = Some r"
    by blast
  from rmatch_Plus[OF 1(4)] obtain d s2 where
    2: "s1 = d @ s2" "d \<noteq> []" "list_all (in_cls Digit) d" "rmatch [Dollar] s2 = Some r"
    by blast
  from rmatch_Dollar[OF 2(4)] have "r = s2" "r = [] \<or> r = [CHR 0x0A]" by auto
  with 1 2 show ?thesis by (auto simp: spaces_def decimal_def list_all_iff)
qed

lemma rmatch_interior:
  assumes "rmatch [Plus Space, Plus Digit, Plus Space] s = Some r"
  shows "\<exists>w d v. s = w @ d @ v @ r \<and> w \<noteq> [] \<and> spaces w \<and> decimal d \<and> v \<noteq> [] \<and> spaces v"
proof -
  from rmatch_Plus[OF assms] obtain w s1 where
    1: "s = w @ s1" "w \<noteq> []" "list_all (in_cls Space) w" "rmatch [Plus Digit, Plus Space] s1 = Some r"
    by blast
  from rmatch_Plus[OF 1(4)] obtain d s2 where
    2: "s1 = d @ s2" "d \<noteq> []" "list_all (in_cls Digit) d" "rmatch [Plus Space] s2 = Some r"
    by blast
  from rmatch_Plus[OF 2(4)] obtain v s3 where
    3: "s2 = v @ s3" "v \<noteq> []" "list_all (in_cls Space) v" "rmatch [] s3 = Some r"
    by blast
  from 3(4) have "s3 = r" by simp
  with 1 2 3 show ?thesis by (auto simp: spaces_def decimal_def list_all_iff)
qed

lemma rmatch_run:
  assumes "rmatch [Plus Space] s = Some r"
  shows "\<exists>w. s = w @ r \<and> w \<noteq> [] \<and> spaces w"
proof -
  from rmatch_Plus[OF assms] obtain w s1 where
    1: "s = w @ s1" "w \<noteq> []" "list_all (in_cls Space) w" "rmatch [] s1 = Some r"
    by blast
  from 1(4) have "s1 = r" by simp
  with 1 show ?thesis by (auto simp: spaces_def list_all_iff)
qed

lemma split_aux_spaces': "spaces w \<Longrightarrow> w \<noteq> [] \<Longrightarrow> split_aux cur (w @ s) = opt_token cur @ split_aux [] s"
  by (simp add: split_aux_spaces opt_token_def)

lemma kept_opt: "kept a b \<Longrightarrow> kept (opt_token cur @ a) (opt_token cur @ b)"
  by (simp add: opt_token_def kept_Cons)

lemma decimal_no_space: "decimal d \<Longrightarrow> no_space d"
  by (auto simp: decimal_def no_space_def list_all_iff digit_not_space)

lemma re_sub_miss:
  "rmatch pat (c # cs) = None \<Longrightarrow> re_sub pat repl (c # cs) = c # re_sub pat repl cs"
  by simp

lemma re_sub_hit:
  "rmatch pat (c # cs) = Some r \<Longrightarrow> length r < length (c # cs) \<Longrightarrow>
   re_sub pat repl (c # cs) = repl @ re_sub pat repl r"
  by simp

lemma re_sub_stuck:
  "rmatch pat (c # cs) = Some r \<Longrightarrow> \<not> length r < length (c # cs) \<Longrightarrow>
   re_sub pat repl (c # cs) = c # re_sub pat repl cs"
  by simp

lemma re_sub_tokens:
  assumes step: "\<And>s r X cur. rmatch pat s = Some r \<Longrightarrow> length r < length s \<Longrightarrow>
      \<forall>cur'. no_space cur' \<longrightarrow> kept (split_aux cur' X) (split_aux cur' r) \<Longrightarrow>
      no_space cur \<Longrightarrow> kept (split_aux cur (repl @ X)) (split_aux cur s)"
  shows "no_space cur \<Longrightarrow> kept (split_aux cur (re_sub pat repl s)) (split_aux cur s)"
proof (induction "length s" arbitrary: s cur rule: less_induct)
  case less
  note ns = less.prems
  show ?case
  proof (cases s)
    case Nil
    then show ?thesis by (simp add: kept_refl)
  next
    case (Cons c cs)
    have ih_cs: "kept (split_aux cur' (re_sub pat repl cs)) (split_aux cur' cs)"
      if "no_space cur'" for cur'
      using less.hyps[of cs cur'] that by (simp add: Cons)
    have skip: "kept (split_aux cur (c # re_sub pat repl cs)) (split_aux cur (c # cs))"
    proof (cases "py_isspace c")
      case True
      have "kept (split_aux [] (re_sub pat repl cs)) (split_aux [] cs)"
        by (rule ih_cs) (simp add: no_space_def)
      then show ?thesis using True by (simp add: kept_Cons)
    next
      case False
      have "no_space (cur @ [c])" using False ns by (simp add: no_space_def)
      from ih_cs[OF this] show ?thesis using False by simp
    qed
    show ?thesis
    proof (cases "rmatch pat (c # cs)")
      case None
      show ?thesis unfolding Cons re_sub_miss[OF None] by (rule skip)
    next
      case (Some r)
      show ?thesis
      proof (cases "length r < length (c # cs)")
        case True
        have ih: "\<forall>cur'. no_space cur' \<longrightarrow>
            kept (split_aux cur' (re_sub pat repl r)) (split_aux cur' r)"
          using less.hyps[of r] True by (simp add: Cons)
        show ?thesis unfolding Cons re_sub_hit[OF Some True]
          by (rule step[OF Some True ih ns])
      next
        case False
        show ?thesis unfolding Cons re_sub_stuck[OF Some False] by (rule skip)
      qed
    qed
  qed
qed

lemma tokens_drop_trailing:
  "no_space cur \<Longrightarrow>
   kept (split_aux cur (re_sub [Plus Space, Plus Digit, Dollar] [] s)) (split_aux cur s)"
proof (rule re_sub_tokens)
  fix s r X cur
  assume m: "rmatch [Plus Space, Plus Digit, Dollar] s = Some r"
    and ih: "\<forall>cur'. no_space cur' \<longrightarrow> kept (split_aux cur' X) (split_aux cur' r)"
    and ns: "no_space cur"
  from rmatch_trailing[OF m] obtain w d where
    s: "s = w @ d @ r" and w: "w \<noteq> []" "spaces w" and d: "decimal d"
    and r: "r = [] \<or> r = [CHR 0x0A]" by blast
  have d': "d \<noteq> []" using d by (simp add: decimal_def)
  have "split_aux d r = [d]" using r d' by (auto simp: py_isspace_def)
  then have "split_aux cur s = opt_token cur @ [d]"
    using w d by (simp add: s split_aux_spaces' split_aux_no_space decimal_no_space)
  moreover have "split_aux cur r = opt_token cur"
    using r by (auto simp: opt_token_def py_isspace_def)
  moreover have "kept (opt_token cur) (opt_token cur @ [d])"
    using kept_opt[of "[]" "[d]" cur] kept_drop[OF d kept_refl[of "[]"]] by simp
  ultimately have "kept (split_aux cur r) (split_aux cur s)" by simp
  with ih ns show "kept (split_aux cur ([] @ X)) (split_aux cur s)"
    by (auto intro: kept_trans)
qed

lemma tokens_drop_interior:
  "no_space cur \<Longrightarrow>
   kept (split_aux cur (re_sub [Plus Space, Plus Digit, Plus Space] '' '' s)) (split_aux cur s)"
proof (rule re_sub_tokens)
  fix s r X cur
  assume m: "rmatch [Plus Space, Plus Digit, Plus Space] s = Some r"
    and ih: "\<forall>cur'. no_space cur' \<longrightarrow> kept (split_aux cur' X) (split_aux cur' r)"
    and ns: "no_space cur"
  from rmatch_interior[OF m] obtain w d v where
    s: "s = w @ d @ v @ r" and w: "w \<noteq> []" "spaces w" and d: "decimal d"
    and v: "v \<noteq> []" "spaces v" by blast
  have d': "d \<noteq> []" using d by (simp add: decimal_def)
  have "split_aux cur s = opt_token cur @ d # split_aux [] r"
    using w d d' v
    by (simp add: s split_aux_spaces' split_aux_no_space decimal_no_space opt_token_def)
  moreover have "split_aux cur ('' '' @ X) = opt_token cur @ split_aux [] X"
    by (simp add: opt_token_def py_isspace_def)
  moreover have "kept (split_aux [] X) (split_aux [] r)"
    using ih by (simp add: no_space_def)
  ultimately show "kept (split_aux cur ('' '' @ X)) (split_aux cur s)"
    using d by (simp add: kept_opt kept_drop)
qed

lemma tokens_collapse:
  "no_space cur \<Longrightarrow>
   kept (split_aux cur (re_sub [Plus Space] '' '' s)) (split_aux cur s)"
proof (rule re_sub_tokens)
  fix s r X cur
  assume m: "rmatch [Plus Space] s = Some r"
    and ih: "\<forall>cur'. no_space cur' \<longrightarrow> kept (split_aux cur' X) (split_aux cur' r)"
    and ns: "no_space cur"
  from rmatch_run[OF m] obtain w where
    s: "s = w @ r" and w: "w \<noteq> []" "spaces w" by blast
  have "split_aux cur s = opt_token cur @ split_aux [] r"
    using w by (simp add: s split_aux_spaces')
  moreover have "split_aux cur ('' '' @ X) = opt_token cur @ split_aux [] X"
    by (simp add: opt_token_def py_isspace_def)
  moreover have "kept (split_aux [] X) (split_aux [] r)"
    using ih by (simp add: no_space_def)
  ultimately show "kept (split_aux cur ('' '' @ X)) (split_aux cur s)"
    by (simp add: kept_opt)
qed

lemma split_aux_spaces_any:
  "spaces w \<Longrightarrow> split_aux [] (w @ s) = split_aux [] s"
  by (cases "w = []") (simp_all add: split_aux_spaces)

lemma split_aux_trailing_spaces:
  "spaces w \<Longrightarrow> split_aux cur (a @ w) = split_aux cur a"
proof (induction a arbitrary: cur)
  case Nil
  then show ?case
    using split_aux_spaces[of w cur "[]"] by (cases "w = []") simp_all
next
  case (Cons c a)
  then show ?case by simp
qed

lemma spaces_takeWhile: "spaces (takeWhile py_isspace s)"
  by (auto simp: spaces_def list_all_iff dest: set_takeWhileD)

lemma py_split_strip: "py_split (py_strip s) = py_split s"
proof -
  define t where "t = dropWhile py_isspace s"
  define a where "a = rev (dropWhile py_isspace (rev t))"
  define v where "v = rev (takeWhile py_isspace (rev t))"
  have "split_aux [] (takeWhile py_isspace s @ t) = split_aux [] t"
    by (rule split_aux_spaces_any[OF spaces_takeWhile])
  then have 1: "split_aux [] s = split_aux [] t" by (simp add: t_def)
  have "rev (takeWhile py_isspace (rev t) @ dropWhile py_isspace (rev t)) = t" by simp
  then have av: "a @ v = t" by (simp only: rev_append a_def v_def)
  have "spaces v" using spaces_takeWhile[of "rev t"] by (simp add: v_def spaces_def)
  then have "split_aux [] (a @ v) = split_aux [] a" by (rule split_aux_trailing_spaces)
  with av have "split_aux [] t = split_aux [] a" by simp
  with 1 show ?thesis by (simp add: py_split_def py_strip_def a_def t_def)
qed

lemma rmatch_Plus_greedy:
  assumes "takeWhile (in_cls c) s \<noteq> []"
    and "rmatch as (drop (length (takeWhile (in_cls c) s)) s) = Some r"
  shows "rmatch (Plus c # as) s = Some r"
proof -
  let ?n = "length (takeWhile (in_cls c) s)"
  have "1 \<le> ?n" using assms(1) by (simp add: Suc_le_eq)
  then have "[1 ..< Suc ?n] = [1 ..< ?n] @ [?n]" by simp
  then have "rev [1 ..< Suc ?n] = ?n # rev [1 ..< ?n]" by simp
  then show ?thesis using assms(2) by (simp only: rmatch.simps list.map first_some.simps)
qed

lemma takeWhile_run: "list_all P a \<Longrightarrow> b = [] \<or> \<not> P (hd b) \<Longrightarrow> takeWhile P (a @ b) = a"
  by (cases b) (auto simp: list_all_iff)

lemma rmatch_trailing_complete:
  assumes "w \<noteq> []" "spaces w" "decimal d"
  shows "rmatch [Plus Space, Plus Digit, Dollar] (w @ d) = Some []"
proof -
  from assms(3) obtain x d' where d: "d = x # d'" and x: "re_digit x"
    by (cases d) (auto simp: decimal_def)
  have tw: "takeWhile (in_cls Space) (w @ d) = w"
    using assms(2) x by (intro takeWhile_run) (auto simp: spaces_def d digit_not_space list_all_iff)
  have td: "takeWhile (in_cls Digit) d = d"
    using assms(3) by (auto simp: decimal_def list_all_iff)
  have "rmatch [Dollar] (drop (length (takeWhile (in_cls Digit) d)) d) = Some []"
    by (simp add: td)
  then have "rmatch [Plus Digit, Dollar] d = Some []"
    using rmatch_Plus_greedy[of Digit d "[Dollar]" "[]"] td d by simp
  then have "rmatch [Plus Digit, Dollar] (drop (length (takeWhile (in_cls Space) (w @ d))) (w @ d)) = Some []"
    by (simp add: tw)
  then show ?thesis
    using rmatch_Plus_greedy[of Space "w @ d" "[Plus Digit, Dollar]" "[]"] tw assms(1) by simp
qed

lemma spaces_before_digits:
  assumes eq: "u @ w @ d = w1 @ d1" and w: "w \<noteq> []" "spaces w"
    and w1: "spaces w1" and d1: "list_all re_digit d1"
  shows "spaces u"
proof (rule ccontr)
  assume "\<not> spaces u"
  then obtain x where x: "x \<in> set u" "\<not> py_isspace x" by (auto simp: spaces_def list_all_iff)
  then have "dropWhile py_isspace (u @ w @ d) = dropWhile py_isspace u @ w @ d"
    by (simp add: dropWhile_append1)
  moreover have "dropWhile py_isspace (w1 @ d1) = dropWhile py_isspace d1"
    using w1 by (simp add: spaces_def list_all_iff)
  ultimately have "set w \<subseteq> set (dropWhile py_isspace d1)" using eq by auto
  then have "set w \<subseteq> set d1" using set_dropWhileD by fastforce
  with w obtain y where "y \<in> set w" "y \<in> set d1" by (cases w) auto
  with w(2) d1 show False by (auto simp: spaces_def list_all_iff digit_not_space)
qed

lemma trailing_removed:
  assumes w: "w \<noteq> []" "spaces w" and d: "decimal d"
  shows "no_space cur \<Longrightarrow>
    subseq (split_aux cur (re_sub [Plus Space, Plus Digit, Dollar] [] (u @ w @ d))) (split_aux cur u)"
proof (induction u arbitrary: cur)
  case Nil
  from w obtain c w' where cw: "w = c # w'" by (cases w) auto
  have m: "rmatch [Plus Space, Plus Digit, Dollar] (c # w' @ d) = Some []"
    using rmatch_trailing_complete[OF w d] by (simp add: cw)
  have l: "length ([] :: string) < length (c # w' @ d)" by simp
  have "re_sub [Plus Space, Plus Digit, Dollar] [] (c # w' @ d)
          = [] @ re_sub [Plus Space, Plus Digit, Dollar] [] []"
    by (rule re_sub_hit[OF m l])
  then have e: "re_sub [Plus Space, Plus Digit, Dollar] [] (w @ d) = []"
    by (simp only: cw append_Cons append_Nil re_sub.simps(1))
  show ?case unfolding append_Nil e by simp
next
  case (Cons c u)
  let ?pat = "[Plus Space, Plus Digit, Dollar]"
  have skip: "subseq (split_aux cur (c # re_sub ?pat [] (u @ w @ d))) (split_aux cur (c # u))"
  proof (cases "py_isspace c")
    case True
    have "subseq (split_aux [] (re_sub ?pat [] (u @ w @ d))) (split_aux [] u)"
      by (rule Cons.IH) (simp add: no_space_def)
    then show ?thesis using True by simp
  next
    case False
    have "no_space (cur @ [c])" using False Cons.prems by (simp add: no_space_def)
    from Cons.IH[OF this] show ?thesis using False by simp
  qed
  show ?case
  proof (cases "rmatch ?pat (c # u @ w @ d)")
    case None
    show ?thesis unfolding append_Cons re_sub_miss[OF None] by (rule skip)
  next
    case (Some r)
    from rmatch_trailing[OF Some] obtain w1 d1 where
      s: "c # u @ w @ d = w1 @ d1 @ r" and w1: "w1 \<noteq> []" "spaces w1" and d1: "decimal d1"
      and r: "r = [] \<or> r = [CHR 0x0A]" by blast
    have "r = []"
    proof (rule ccontr)
      assume "r \<noteq> []"
      with r have r': "r = [CHR 0x0A]" by simp
      have "last (c # u @ w @ d) = last d" using d by (simp add: decimal_def)
      moreover have "last (w1 @ d1 @ r) = CHR 0x0A" by (simp add: r')
      ultimately have "last d = CHR 0x0A" using s by simp
      moreover have "re_digit (last d)" using d by (auto simp: decimal_def list_all_iff)
      ultimately show False by (simp add: re_digit_def)
    qed
    with s have eq: "(c # u) @ w @ d = w1 @ d1" by simp
    have len: "length r < length (c # u @ w @ d)" by (simp add: \<open>r = []\<close>)
    have "spaces (c # u)"
      using spaces_before_digits[OF eq w w1(2)] d1 by (simp add: decimal_def)
    then have "split_aux cur ((c # u) @ []) = (if cur = [] then [] else [cur]) @ split_aux [] []"
      by (intro split_aux_spaces) simp_all
    then have sp: "split_aux cur (c # u) = split_aux cur []" by simp
    have "re_sub ?pat [] (c # u @ w @ d) = [] @ re_sub ?pat [] r"
      by (rule re_sub_hit[OF Some len])
    then have e: "re_sub ?pat [] (c # u @ w @ d) = []"
      by (simp only: \<open>r = []\<close> append_Nil re_sub.simps(1))
    show ?thesis unfolding append_Cons e sp by simp
  qed
qed

section \<open>Schedules run action by action\<close>


lemma run_Cons: "run (a # as) w = run as (step a w)"
  by (simp add: run_def)

lemma run_Nil: "run [] w = w"
  by (simp add: run_def)

section \<open>Steps of the worker thread\<close>

lemma step_thread:
  "k < length (threads w) \<Longrightarrow>
   step (Thread_step k ok) w =
     (threads_update (\<lambda>ts. ts[k := fst (thread_step ok (threads w ! k) w)])
        (snd (thread_step ok (threads w ! k) w)))"
  by (simp add: step_def split_def Let_def)

lemma thread_step_Start:
  "pc t = Start \<Longrightarrow> thread_step ok t w =
     (t\<lparr>pc := Check_origin\<rparr>,
      w\<lparr>executor := (executor w)\<lparr>is_running := True,
           total_commands := length (arg_commands t), current_progress := 0\<rparr>\<rparr>)"
  by (simp add: thread_step_def)

lemma thread_step_Check_None:
  "pc t = Check_origin \<Longrightarrow> arg_center_pos t = None \<Longrightarrow>
   thread_step ok t w = (t\<lparr>pc := Finally\<rparr>, w)"
  by (simp add: thread_step_def)

lemma thread_step_Finally:
  "pc t = Finally \<Longrightarrow>
   thread_step ok t w = (t\<lparr>pc := Exited\<rparr>, w\<lparr>executor := (executor w)\<lparr>is_running := False\<rparr>\<rparr>)"
  by (simp add: thread_step_def)

lemma thread_step_After_loop:
  "pc t = After_loop \<Longrightarrow>
   thread_step ok t w =
     (t\<lparr>pc := Finally\<rparr>,
      if on_complete (executor w) \<and> plugin_self (executor w)
      then w\<lparr>scheduled := scheduled w @ [Complete_callback (arg_player_name t)]\<rparr>
      else w)"
  by (simp add: thread_step_def)

lemma thread_step_Loop_stopped:
  "pc t = Loop i \<Longrightarrow> i < length (arg_commands t) \<Longrightarrow> \<not> is_running (executor w) \<Longrightarrow>
   thread_step ok t w = (t\<lparr>pc := After_loop\<rparr>, w)"
  by (simp add: thread_step_def)

section \<open>One run of the engine\<close>














lemma last_ok_bound: "last_ok outs \<le> length outs"
  using length_dropWhile_le[of Not "rev outs"] by (simp add: last_ok_def)

lemma last_ok_none: "True \<notin> set outs \<Longrightarrow> last_ok outs = 0"
proof -
  assume "True \<notin> set outs"
  then have "\<forall>x \<in> set (rev outs). \<not> x" by auto
  then have "dropWhile Not (rev outs) = []" by (simp only: dropWhile_eq_Nil_conv)
  then show ?thesis by (simp add: last_ok_def)
qed

lemma last_ok_last: "True \<notin> set rest \<Longrightarrow> last_ok (pre @ True # rest) = Suc (length pre)"
proof -
  assume "True \<notin> set rest"
  then have "\<And>x. x \<in> set (rev rest) \<Longrightarrow> \<not> x" by auto
  then have "dropWhile Not (rev rest @ True # rev pre) = dropWhile Not (True # rev pre)"
    by (rule dropWhile_append2)
  then show ?thesis by (simp add: last_ok_def)
qed

section \<open>The debit and the record in the confirmation flows\<close>

text \<open>
  With enough money, a confirmation of a fresh design whose request is not tracked
  takes the cost and only reports the lost position; the confirmation of a stored
  design whose coordinates are missing gives the cost back. The examples run the two
  flows, and the fresh one with its request still tracked.
\<close>

lemma confirm_building_untracked:
  assumes "economy_plugin (plugin w) = Some money" "0 < cost" "cost \<le> money name"
    and "request_id = None \<or> request_id = Some 0
         \<or> (\<exists>rid. request_id = Some rid \<and> map_of (request_positions (plugin w)) rid = None)"
  shows "confirm_building w name (Some cmds) (Some cost) request_id =
           w\<lparr>plugin := (plugin w)\<lparr>economy_plugin := Some (money(name := money name - cost)),
                                  messages := messages (plugin w) @ [(name, Position_lost)]\<rparr>\<rparr>"
  using assms
  by (auto simp: confirm_building_def get_player_money_def deduct_money_def on_plugin_def tell_def)

lemma confirm_building_with_record_missing:
  assumes "economy_plugin (plugin w) = Some money" "0 < cost" "cost \<le> money name"
    and "rec = None \<or> (\<exists>d. rec = Some d \<and>
           (dict_center_x d = None \<or> dict_center_y d = None \<or> dict_center_z d = None))"
  shows "confirm_building_with_record w name cmds cost rec =
           w\<lparr>plugin := (plugin w)\<lparr>economy_plugin := Some (money(name := money name)),
                                  messages := messages (plugin w) @ [(name, Coordinates_missing_refunded)]\<rparr>\<rparr>"
  using assms
  by (auto simp: confirm_building_with_record_def get_player_money_def deduct_money_def
      add_money_def on_plugin_def tell_def split: option.splits)

lemma confirm_building_with_record_refunds_example:
  "(let w = initial_world (Some (\<lambda>name. 500));
        w1 = confirm_building_with_record w ''steve'' (Some [''setblock ~ ~ ~ stone'']) 100 None
    in get_player_money (plugin w1) ''steve'' = 500
       \<and> building_records (plugin w1) = []
       \<and> messages (plugin w1) = [(''steve'', Coordinates_missing_refunded)])"
  by code_simp

lemma confirm_building_tracked_example:
  "(let w = initial_world (Some (\<lambda>name. 500));
        w0 = w\<lparr>plugin := (plugin w)\<lparr>request_positions := [(1, \<lparr>tracked_center_pos = (0, 64, 0),
              tracked_dimension = ''Overworld'', tracked_size = 5, tracked_requirements = ''hut'',
              tracked_player = ''steve''\<rparr>)], next_request_id := 2\<rparr>\<rparr>;
        w1 = confirm_building w0 ''steve'' (Some [''setblock ~ ~ ~ stone'']) (Some 100) (Some 1)
    in get_player_money (plugin w1) ''steve'' = 400
       \<and> map fst (building_records (plugin w1)) = [1]
       \<and> map (record_status \<circ> snd) (building_records (plugin w1)) = [Building]
       \<and> request_positions (plugin w1) = []
       \<and> length (threads w1) = 1
       \<and> map snd (messages (plugin w1)) = [Executing, Build_started 100, Build_position (0, 64, 0)])"
  by code_simp

section \<open>Sanitization of a door command\<close>

text \<open>
  Claim C8. Sanitizing \<open>setblock ~ ~ ~ oak_door[facing=east] 0\<close> strips the bracket
  group \<open>[facing=east]\<close> and the trailing data value \<open>0\<close> and leaves exactly
  \<open>setblock ~ ~ ~ oak_door\<close>.
\<close>

theorem sanitize_oak_door:
  "clean_block_states ''setblock ~ ~ ~ oak_door[facing=east] 0'' = ''setblock ~ ~ ~ oak_door''"
  by code_simp

section \<open>Idempotence of coordinate resolution\<close>

text \<open>
  Claim C7. \<open>resolve\<close> is idempotent: for every command string and every origin,
  resolving the result of a resolution again changes nothing. After a successful
  resolution no token starts with \<open>~\<close> (bare integers are counted, never changed); on a
  malformed offset the command comes back as it was, and does so again.
\<close>

theorem resolve_idempotent:
  "convert_relative_coords (convert_relative_coords cmd origin) origin
     = convert_relative_coords cmd origin"
proof (cases "convert_parts origin 0 (py_split cmd)")
  case None
  then show ?thesis by (simp add: convert_relative_coords_def)
next
  case (Some qs)
  then have r: "list_all resolved qs"
    using convert_parts_resolved py_split_tokens by blast
  have "py_split (py_join qs) = qs" using r by (simp add: py_split_join resolved_token)
  moreover have "convert_parts origin 0 qs = Some qs" using r by (rule convert_parts_fixed)
  ultimately show ?thesis using Some by (simp add: convert_relative_coords_def)
qed

section \<open>Coordinate resolution by the slot counter\<close>




section \<open>Data values removed by the sanitizer\<close>

text \<open>
  Claim C5, amended. Once the bracket groups are stripped, \<open>sanitize\<close> removes only
  standalone unsigned-integer tokens (tokens consisting solely of decimal digits),
  trailing or interior: the tokens of its result are the tokens of the bracket-free
  command, in order, with some unsigned-integer tokens left out, and every token that
  is not solely digits (a negative integer \<open>-N\<close>, the relative coordinates \<open>~\<close>, \<open>~+N\<close>,
  \<open>~-N\<close>, a block name) is kept unchanged. An unsigned-integer token that ends the
  command after whitespace is always among the removed ones. The sanitizer does not
  tell a data value from a coordinate.
\<close>

theorem sanitize_tokens:
  "subseq (py_split (clean_block_states s)) (py_split (bracket_stripped s))
   \<and> filter (\<lambda>t. \<not> decimal t) (py_split (clean_block_states s))
       = filter (\<lambda>t. \<not> decimal t) (py_split (bracket_stripped s))
   \<and> (bracket_stripped s = u @ w @ d \<and> w \<noteq> [] \<and> list_all py_isspace w \<and> decimal d
        \<longrightarrow> subseq (py_split (clean_block_states s)) (py_split u))"
proof -
  let ?b = "bracket_stripped s"
  let ?c5 = "re_sub [Plus Space, Plus Digit, Dollar] [] ?b"
  let ?c6 = "re_sub [Plus Space, Plus Digit, Plus Space] '' '' ?c5"
  let ?c7 = "re_sub [Plus Space] '' '' ?c6"
  have ns: "no_space []" by (simp add: no_space_def)
  have c: "py_split (clean_block_states s) = py_split ?c7"
    by (simp add: clean_block_states_alt py_split_strip)
  have k67: "kept (py_split ?c7) (py_split ?c5)"
    unfolding py_split_def
    by (rule kept_trans[OF tokens_collapse[OF ns] tokens_drop_interior[OF ns]])
  have k5: "kept (py_split ?c5) (py_split ?b)"
    unfolding py_split_def by (rule tokens_drop_trailing[OF ns])
  have k: "kept (py_split (clean_block_states s)) (py_split ?b)"
    unfolding c by (rule kept_trans[OF k67 k5])
  have t: "subseq (py_split (clean_block_states s)) (py_split u)"
    if "?b = u @ w @ d" "w \<noteq> []" "list_all py_isspace w" "decimal d"
  proof -
    have "subseq (py_split ?c5) (py_split u)"
      unfolding py_split_def that(1)
      by (rule trailing_removed[OF that(2) _ that(4) ns]) (simp add: spaces_def that(3))
    moreover have "subseq (py_split ?c7) (py_split ?c5)" using k67 by (simp add: kept_def)
    ultimately show ?thesis unfolding c by (rule subseq_order.trans[rotated])
  qed
  from k t show ?thesis by (auto simp: kept_def)
qed

text \<open>A command with a bracket group and a trailing data value meets the hypothesis.\<close>

theorem sanitize_tokens_witness:
  "bracket_stripped ''setblock ~ ~-1 ~ carpet[color=red] 14'' = ''setblock ~ ~-1 ~ carpet'' @ '' '' @ ''14''
   \<and> '' '' \<noteq> [] \<and> list_all py_isspace '' '' \<and> decimal ''14''
   \<and> subseq (py_split (clean_block_states ''setblock ~ ~-1 ~ carpet[color=red] 14''))
        (py_split ''setblock ~ ~-1 ~ carpet'')"
proof -
  have h: "bracket_stripped ''setblock ~ ~-1 ~ carpet[color=red] 14'' = ''setblock ~ ~-1 ~ carpet'' @ '' '' @ ''14''
      \<and> '' '' \<noteq> [] \<and> list_all py_isspace '' '' \<and> decimal ''14''"
    by code_simp
  then show ?thesis
    using sanitize_tokens[of "''setblock ~ ~-1 ~ carpet[color=red] 14''"
        "''setblock ~ ~-1 ~ carpet''" "'' ''" "''14''"]
    by blast
qed

text \<open>
  The claim as stated fails both ways: a negative data value is not removed (the
  patterns match digits only), and bare absolute coordinates do not survive (the
  interior pattern takes every unsigned integer between whitespace that its scan
  meets).
\<close>

theorem sanitize_data_values_counterexample:
  "clean_block_states ''setblock ~ ~ ~ stone -1'' = ''setblock ~ ~ ~ stone -1''
   \<and> clean_block_states ''setblock 10 64 20 stone'' = ''setblock 64 stone''"
  by code_simp

section \<open>Single flight\<close>



section \<open>Execution without an origin\<close>

text \<open>
  Claim C3, amended. For every command list, calling \<open>execute\<close> with an absent origin
  on an idle engine performs zero dispatches, raises zero progress and zero
  completion events, never falls back to an ambient position and touches no store of
  the plugin; the worker does set the running flag (and sets the total to the number
  of commands and the progress counter to 0) before it tests the origin, and clears
  the flag on its way out, so the engine passes through the running state and ends
  idle.
\<close>

theorem missing_origin:
  assumes "\<not> is_running (executor w)"
  shows "let k = length (threads w);
             w1 = execute_commands_async w cmds name None;
             w2 = step (Thread_step k a) w1;
             w4 = run [Thread_step k b, Thread_step k c] w2
         in is_running (executor w2) \<and> total_commands (executor w2) = length cmds
            \<and> current_progress (executor w2) = 0
            \<and> dispatched w4 = dispatched w \<and> scheduled w4 = scheduled w
            \<and> delivered w4 = delivered w \<and> plugin w4 = plugin w
            \<and> \<not> is_running (executor w4) \<and> pc (threads w4 ! length (threads w)) = Exited"
proof -
  define k where "k = length (threads w)"
  define w1 where "w1 = execute_commands_async w cmds name None"
  define w2 where "w2 = step (Thread_step k a) w1"
  define w3 where "w3 = step (Thread_step k b) w2"
  define w4 where "w4 = step (Thread_step k c) w3"
  have t1: "threads w1 = threads w @ [\<lparr>pc = Start, arg_commands = cmds, arg_player_name = name, arg_center_pos = None\<rparr>]"
    and r1: "executor w1 = executor w" "dispatched w1 = dispatched w" "scheduled w1 = scheduled w"
      "delivered w1 = delivered w" "plugin w1 = plugin w"
    using assms by (simp_all add: w1_def execute_commands_async_def)
  have k1: "k < length (threads w1)" by (simp add: t1 k_def)
  have n1: "threads w1 ! k = \<lparr>pc = Start, arg_commands = cmds, arg_player_name = name, arg_center_pos = None\<rparr>"
    by (simp add: t1 k_def)
  have w2: "w2 = threads_update (\<lambda>ts. ts[k := (threads w1 ! k)\<lparr>pc := Check_origin\<rparr>])
      (w1\<lparr>executor := (executor w1)\<lparr>is_running := True, total_commands := length cmds, current_progress := 0\<rparr>\<rparr>)"
    unfolding w2_def by (simp add: step_thread[OF k1] thread_step_Start n1)
  have k2: "k < length (threads w2)" using k1 by (simp add: w2)
  have n2: "pc (threads w2 ! k) = Check_origin" "arg_center_pos (threads w2 ! k) = None"
    using k1 by (simp_all add: w2 n1)
  have w3: "w3 = threads_update (\<lambda>ts. ts[k := (threads w2 ! k)\<lparr>pc := Finally\<rparr>]) w2"
    unfolding w3_def by (simp add: step_thread[OF k2] thread_step_Check_None n2)
  have k3: "k < length (threads w3)" using k2 by (simp add: w3)
  have n3: "pc (threads w3 ! k) = Finally" using k2 by (simp add: w3)
  have w4: "w4 = threads_update (\<lambda>ts. ts[k := (threads w3 ! k)\<lparr>pc := Exited\<rparr>])
      (w3\<lparr>executor := (executor w3)\<lparr>is_running := False\<rparr>\<rparr>)"
    unfolding w4_def by (simp add: step_thread[OF k3] thread_step_Finally n3)
  have "is_running (executor w2)" "total_commands (executor w2) = length cmds"
    "current_progress (executor w2) = 0"
    by (simp_all add: w2)
  moreover have "dispatched w4 = dispatched w" "scheduled w4 = scheduled w"
    "delivered w4 = delivered w" "plugin w4 = plugin w" "\<not> is_running (executor w4)"
    by (simp_all add: w4 w3 w2 r1)
  moreover have "pc (threads w4 ! k) = Exited" using k3 by (simp add: w4)
  moreover have "run [Thread_step k b, Thread_step k c] w2 = w4"
    by (simp add: run_Cons run_Nil w4_def w3_def)
  ultimately show ?thesis
    unfolding Let_def k_def[symmetric] w1_def[symmetric] w2_def[symmetric] by simp
qed

text \<open>The engine as the plugin creates it is idle, and so meets the hypothesis.\<close>

theorem missing_origin_witness:
  "\<not> is_running (executor (initial_world None))
   \<and> (let w4 = run [Thread_step 0 True, Thread_step 0 True, Thread_step 0 True]
                  (execute_commands_async (initial_world None)
                     [''setblock ~ ~ ~ stone'', ''setblock ~ ~1 ~ glass''] ''steve'' None)
       in dispatched w4 = [] \<and> scheduled w4 = [] \<and> delivered w4 = []
          \<and> \<not> is_running (executor w4))"
proof -
  have h: "\<not> is_running (executor (initial_world None))"
    by (simp add: initial_world_def)
  from missing_origin[OF h, of "[''setblock ~ ~ ~ stone'', ''setblock ~ ~1 ~ glass'']" "''steve''" True True True]
  show ?thesis using h by (simp add: Let_def run_Cons initial_world_def)
qed

text \<open>
  The claim as stated says that the engine does not transition to the running
  state; after the first step of the worker it is running, with the origin absent.
\<close>

theorem missing_origin_counterexample:
  "is_running (executor (run [Execute [''setblock ~ ~ ~ stone''] ''steve'' None, Thread_step 0 True]
     (initial_world None)))"
  by code_simp

section \<open>Cancellation\<close>

text \<open>
  Claim C2, amended. If \<open>cancel()\<close> is invoked while the engine is running and the flag
  is observed off before some command, the command loop exits early (that command
  and the later ones are not dispatched) and the engine transitions back to idle;
  the completion event is raised all the same, whenever a completion callback and a
  plugin are configured: the code after the loop does not ask how the loop ended.
\<close>

theorem cancel_still_completes:
  assumes "k < length (threads w)" "pc (threads w ! k) = Loop i"
    "i < length (arg_commands (threads w ! k))"
  shows "let w4 = run [Stop, Thread_step k a, Thread_step k b, Thread_step k c] w
         in dispatched w4 = dispatched w \<and> delivered w4 = delivered w
            \<and> pc (threads w4 ! k) = Exited \<and> \<not> is_running (executor w4)
            \<and> scheduled w4 = scheduled w @
                 (if on_complete (executor w) \<and> plugin_self (executor w)
                  then [Complete_callback (arg_player_name (threads w ! k))] else [])"
proof -
  define w1 where "w1 = step Stop w"
  define w2 where "w2 = step (Thread_step k a) w1"
  define w3 where "w3 = step (Thread_step k b) w2"
  define w4 where "w4 = step (Thread_step k c) w3"
  have w1: "w1 = w\<lparr>executor := (executor w)\<lparr>is_running := False\<rparr>\<rparr>"
    by (simp add: w1_def step_def stop_execution_def)
  have k1: "k < length (threads w1)" using assms(1) by (simp add: w1)
  have n1: "pc (threads w1 ! k) = Loop i" "i < length (arg_commands (threads w1 ! k))"
    "\<not> is_running (executor w1)"
    using assms by (simp_all add: w1)
  have w2: "w2 = threads_update (\<lambda>ts. ts[k := (threads w1 ! k)\<lparr>pc := After_loop\<rparr>]) w1"
    unfolding w2_def by (simp add: step_thread[OF k1] thread_step_Loop_stopped[OF n1])
  have k2: "k < length (threads w2)" using k1 by (simp add: w2)
  have n2: "pc (threads w2 ! k) = After_loop" using k1 by (simp add: w2)
  have w3: "w3 = threads_update (\<lambda>ts. ts[k := (threads w2 ! k)\<lparr>pc := Finally\<rparr>])
      (if on_complete (executor w2) \<and> plugin_self (executor w2)
       then w2\<lparr>scheduled := scheduled w2 @ [Complete_callback (arg_player_name (threads w2 ! k))]\<rparr>
       else w2)"
    unfolding w3_def by (simp add: step_thread[OF k2] thread_step_After_loop n2)
  have k3: "k < length (threads w3)" using k2 by (simp add: w3)
  have n3: "pc (threads w3 ! k) = Finally" using k2 by (simp add: w3)
  have w4: "w4 = threads_update (\<lambda>ts. ts[k := (threads w3 ! k)\<lparr>pc := Exited\<rparr>])
      (w3\<lparr>executor := (executor w3)\<lparr>is_running := False\<rparr>\<rparr>)"
    unfolding w4_def by (simp add: step_thread[OF k3] thread_step_Finally n3)
  have "dispatched w4 = dispatched w" "delivered w4 = delivered w" "\<not> is_running (executor w4)"
    by (simp_all add: w4 w3 w2 w1)
  moreover have "pc (threads w4 ! k) = Exited" using k3 by (simp add: w4)
  moreover have "scheduled w4 = scheduled w @
                 (if on_complete (executor w) \<and> plugin_self (executor w)
                  then [Complete_callback (arg_player_name (threads w ! k))] else [])"
    using assms(1) by (simp add: w4 w3 w2 w1)
  moreover have "run [Stop, Thread_step k a, Thread_step k b, Thread_step k c] w = w4"
    by (simp add: run_Cons run_Nil w4_def w3_def w2_def w1_def)
  ultimately show ?thesis by (simp add: Let_def)
qed

text \<open>
  The hypotheses hold of a run of two commands that has dispatched the first: its
  thread stands at the head of the loop for the second.
\<close>

theorem cancel_still_completes_witness:
  "(let w = run [Execute [''setblock ~ ~ ~ stone'', ''setblock ~ ~1 ~ glass''] ''steve'' (Some (0, 64, 0)),
                 Thread_step 0 True, Thread_step 0 True, Thread_step 0 True] (initial_world None)
    in 0 < length (threads w) \<and> pc (threads w ! 0) = Loop 1
       \<and> 1 < length (arg_commands (threads w ! 0))
       \<and> scheduled (run [Stop, Thread_step 0 True, Thread_step 0 True, Thread_step 0 True] w)
           = scheduled w @ [Complete_callback ''steve''])"
proof -
  define w where "w = run [Execute [''setblock ~ ~ ~ stone'', ''setblock ~ ~1 ~ glass''] ''steve'' (Some (0, 64, 0)),
                 Thread_step 0 True, Thread_step 0 True, Thread_step 0 True] (initial_world None)"
  have h: "0 < length (threads w)" "pc (threads w ! 0) = Loop 1"
    "1 < length (arg_commands (threads w ! 0))"
    unfolding w_def by code_simp+
  have c: "on_complete (executor w)" "plugin_self (executor w)"
    "arg_player_name (threads w ! 0) = ''steve''"
    unfolding w_def by code_simp+
  from cancel_still_completes[OF h, of True True True] c h
  show ?thesis unfolding w_def[symmetric] by (simp add: Let_def)
qed

text \<open>
  The claim as stated says that no completion event is raised for a cancelled run.
  Here the run of two commands is cancelled after the first; the second is never
  dispatched, and the main thread still receives the completion event.
\<close>

theorem cancel_counterexample:
  "(let w = run [Execute [''setblock ~ ~ ~ stone'', ''setblock ~ ~1 ~ glass''] ''steve'' (Some (0, 64, 0)),
                 Thread_step 0 True, Thread_step 0 True, Thread_step 0 True,
                 Stop, Thread_step 0 True, Thread_step 0 True, Thread_step 0 True,
                 Main_task, Main_task] (initial_world None)
    in dispatched w = [(''setblock 0 64 0 stone'', True)] \<and> \<not> is_running (executor w)
       \<and> delivered w = [Progress_event ''steve'' 1 2, Complete_event ''steve'' 1 2])"
  by code_simp

section \<open>The progress counter counts successful dispatches\<close>



text \<open>
  Four commands of which the second and the fourth fail: the events carry 1, 3 and 3,
  while four commands were attempted.
\<close>

lemma failed_dispatch_example:
  "(let w = run [Thread_step 0 True, Thread_step 0 True, Thread_step 0 True, Main_task,
                 Thread_step 0 False, Main_task, Thread_step 0 True, Main_task, Thread_step 0 False,
                 Thread_step 0 True, Thread_step 0 True, Main_task, Thread_step 0 True]
                (execute_commands_async (initial_world None)
                   [''setblock ~ ~ ~ stone'', ''setblock ~ ~1 ~ glass'', ''setblock ~ ~2 ~ glass'',
                    ''setblock ~ ~3 ~ stone''] ''steve'' (Some (0, 64, 0)))
    in map snd (dispatched w) = [True, False, True, False]
       \<and> delivered w = [Progress_event ''steve'' 1 4, Progress_event ''steve'' 3 4,
                        Complete_event ''steve'' 3 4])"
  by code_simp

section \<open>The debit is left without a record or a refund\<close>

text \<open>
  Claim C1 says that after a successful debit every confirmation flow either creates
  a record or credits the cost back before it reports the failure, missing request
  or position data included. The fresh-confirmation path of \<open>_confirm_building\<close> does
  not: a player with 500 confirms a design costing 100 whose request is not tracked
  (no request id, or an id that is no longer recorded); afterwards the player has
  400, there is no record, and the only message is that the position was lost.
\<close>

theorem debit_without_record_or_refund:
  "(let w = initial_world (Some (\<lambda>name. 500));
        w1 = confirm_building w ''steve'' (Some [''setblock ~ ~ ~ stone'']) (Some 100) None;
        w2 = confirm_building w ''steve'' (Some [''setblock ~ ~ ~ stone'']) (Some 100) (Some 7)
    in get_player_money (plugin w) ''steve'' = 500
       \<and> get_player_money (plugin w1) ''steve'' = 400
       \<and> building_records (plugin w1) = []
       \<and> messages (plugin w1) = [(''steve'', Position_lost)]
       \<and> get_player_money (plugin w2) ''steve'' = 400
       \<and> building_records (plugin w2) = []
       \<and> messages (plugin w2) = [(''steve'', Position_lost)])"
  by code_simp

end
